theory Spec2Isabelle
  imports Complex_Main
begin

section \<open>Numbers\<close>

text \<open>
  The program is TypeScript; every \<^verbatim>\<open>number\<close> is modelled as a \<^typ>\<open>real\<close>, so
  \<^verbatim>\<open>Math.min\<close>, \<^verbatim>\<open>Math.max\<close>, \<^verbatim>\<open>Math.abs\<close>, \<^verbatim>\<open>Math.sin\<close> and \<^verbatim>\<open>Math.cos\<close> are
  \<^const>\<open>min\<close>, \<^const>\<open>max\<close>, \<^const>\<open>abs\<close>, \<^const>\<open>sin\<close> and \<^const>\<open>cos\<close> on the reals. The
  rounding of IEEE doubles is not modelled.
\<close>

section \<open>Mode and door state (App)\<close>

text \<open>
  \<^verbatim>\<open>useState<'car' | 'flight' | 'robot'>('car')\<close> and \<^verbatim>\<open>useState(false)\<close> of
  \<^verbatim>\<open>App\<close>.
\<close>

datatype mode = Car | Flight | Robot

record app =
  mode :: mode
  doorOpen :: bool

definition initialApp :: app where
  "initialApp = \<lparr> mode = Car, doorOpen = False \<rparr>"

text \<open>
  \<^verbatim>\<open>toggleTransform\<close>:
  \<^verbatim>\<open>setMode(prev => prev === 'robot' ? 'car' : 'robot'); setDoorOpen(false);\<close>
\<close>

definition toggleTransform :: "app \<Rightarrow> app" where
  "toggleTransform s =
     \<lparr> mode = (if mode s = Robot then Car else Robot), doorOpen = False \<rparr>"

text \<open>
  \<^verbatim>\<open>toggleFlight\<close>:
  \<^verbatim>\<open>setMode(prev => prev === 'flight' ? 'car' : 'flight'); setDoorOpen(false);\<close>
\<close>

definition toggleFlight :: "app \<Rightarrow> app" where
  "toggleFlight s =
     \<lparr> mode = (if mode s = Flight then Car else Flight), doorOpen = False \<rparr>"

text \<open>
  \<^verbatim>\<open>toggleDoor\<close>: \<^verbatim>\<open>if (mode === 'car') setDoorOpen(prev => !prev);\<close>
\<close>

definition toggleDoor :: "app \<Rightarrow> app" where
  "toggleDoor s = (if mode s = Car then s\<lparr> doorOpen := \<not> doorOpen s \<rparr> else s)"

text \<open>The three user commands (the buttons of the page) and their dispatch.\<close>

datatype command = ToggleRobot | ToggleFlight | ToggleDoor

fun exec :: "app \<Rightarrow> command \<Rightarrow> app" where
  "exec s ToggleRobot = toggleTransform s"
| "exec s ToggleFlight = toggleFlight s"
| "exec s ToggleDoor = toggleDoor s"

text \<open>A session: the commands issued so far, applied in order from a state.\<close>

definition run :: "app \<Rightarrow> command list \<Rightarrow> app" where
  "run s cs = foldl exec s cs"

text \<open>The door can be open only in car mode.\<close>

definition doorInv :: "app \<Rightarrow> bool" where
  "doorInv s = (mode s = Car \<or> \<not> doorOpen s)"

section \<open>The three.js interpolation helpers\<close>

text \<open>
  \<^verbatim>\<open>THREE.MathUtils.lerp(x, y, t)\<close> of the three.js library is
  \<^verbatim>\<open>(1 - t) * x + t * y\<close>.
\<close>

definition lerp :: "real \<Rightarrow> real \<Rightarrow> real \<Rightarrow> real" where
  "lerp a b t = (1 - t) * a + t * b"

text \<open>
  \<^verbatim>\<open>THREE.Vector3\<close>, with \<^verbatim>\<open>fromArray\<close>, \<^verbatim>\<open>add\<close> and \<^verbatim>\<open>lerp(v, alpha)\<close>, which is
  \<^verbatim>\<open>this.x += (v.x - this.x) * alpha\<close> on each of the three coordinates. The library
  does not clamp \<^verbatim>\<open>alpha\<close>.
\<close>

datatype vector3 = Vector3 (vx: real) (vy: real) (vz: real)

fun fromArray :: "real \<times> real \<times> real \<Rightarrow> vector3" where
  "fromArray (a, b, c) = Vector3 a b c"

fun addV :: "vector3 \<Rightarrow> vector3 \<Rightarrow> vector3" where
  "addV (Vector3 a b c) (Vector3 d e f) = Vector3 (a + d) (b + e) (c + f)"

fun lerpV :: "vector3 \<Rightarrow> vector3 \<Rightarrow> real \<Rightarrow> vector3" where
  "lerpV (Vector3 a b c) (Vector3 d e f) alpha =
     Vector3 (a + (d - a) * alpha) (b + (e - b) * alpha) (c + (f - c) * alpha)"

text \<open>\<^verbatim>\<open>Vector3.distanceTo\<close>: the Euclidean distance.\<close>

definition distanceTo :: "vector3 \<Rightarrow> vector3 \<Rightarrow> real" where
  "distanceTo p q = sqrt ((vx p - vx q)\<^sup>2 + (vy p - vy q)\<^sup>2 + (vz p - vz q)\<^sup>2)"

section \<open>Vehicle locomotion (VehicleController)\<close>

text \<open>\<^verbatim>\<open>CONTROLS_CONFIG\<close>.\<close>

definition acceleration :: real where "acceleration = 0.02"
definition deceleration :: real where "deceleration = 0.95"
definition maxSpeed :: real where "maxSpeed = 0.8"
definition turnSpeed :: real where "turnSpeed = 0.04"
definition liftSpeed :: real where "liftSpeed = 0.1"

text \<open>
  The held-key map \<^verbatim>\<open>keys.current\<close>: a key code is mapped to \<^verbatim>\<open>true\<close> by keydown and
  to \<^verbatim>\<open>false\<close> by keyup, and is absent (\<^verbatim>\<open>undefined\<close>, falsy) before its first event.
\<close>

type_synonym keys = "string \<rightharpoonup> bool"

definition handleDown :: "string \<Rightarrow> keys \<Rightarrow> keys" where
  "handleDown code ks = ks(code \<mapsto> True)"

definition handleUp :: "string \<Rightarrow> keys \<Rightarrow> keys" where
  "handleUp code ks = ks(code \<mapsto> False)"

definition truthy :: "keys \<Rightarrow> string \<Rightarrow> bool" where
  "truthy ks code = (ks code = Some True)"

definition isMovingForward :: "keys \<Rightarrow> bool" where
  "isMovingForward ks = (truthy ks ''ArrowUp'' \<or> truthy ks ''KeyW'')"

definition isMovingBackward :: "keys \<Rightarrow> bool" where
  "isMovingBackward ks = (truthy ks ''ArrowDown'' \<or> truthy ks ''KeyS'')"

definition isTurningLeft :: "keys \<Rightarrow> bool" where
  "isTurningLeft ks = (truthy ks ''ArrowLeft'' \<or> truthy ks ''KeyA'')"

definition isTurningRight :: "keys \<Rightarrow> bool" where
  "isTurningRight ks = (truthy ks ''ArrowRight'' \<or> truthy ks ''KeyD'')"

text \<open>
  The refs of the component. \<^verbatim>\<open>groupRef.current\<close> is the group's position and Euler
  rotation once mounted, \<^verbatim>\<open>controlsRef.current\<close> the orbit controls' target.
\<close>

record vehicle =
  velocity :: real
  rotY :: real
  height :: real
  banking :: real
  wheelRot :: real
  worldPos :: vector3
  groupRef :: "(vector3 \<times> real \<times> real \<times> real) option"
  controlsRef :: "vector3 option"

text \<open>
  The locals \<^verbatim>\<open>isRobot = mode === 'robot'\<close> and \<^verbatim>\<open>isFlight = mode === 'flight'\<close> of the
  callback are written out as \<open>m = Robot\<close> and \<open>m = Flight\<close>.
\<close>

definition currentAccel :: "mode \<Rightarrow> real" where
  "currentAccel m = (if m = Robot then acceleration * 0.5 else acceleration)"

definition currentMaxSpeed :: "mode \<Rightarrow> real" where
  "currentMaxSpeed m =
     (if m = Flight then maxSpeed * 1.5 else if m = Robot then maxSpeed * 0.4 else maxSpeed)"

text \<open>Step 1 of the frame: the new value of \<^verbatim>\<open>velocity.current\<close>.\<close>

definition velocityStep :: "mode \<Rightarrow> keys \<Rightarrow> real \<Rightarrow> real" where
  "velocityStep m ks v =
     (if isMovingForward ks then min (v + currentAccel m) (currentMaxSpeed m)
      else if isMovingBackward ks then max (v - currentAccel m) (- currentMaxSpeed m * 0.5)
      else v * deceleration)"

text \<open>Step 2: steering, read from the velocity that step 1 has just written.\<close>

definition steerEffect :: "mode \<Rightarrow> real \<Rightarrow> real" where
  "steerEffect m v =
     (if m = Flight \<or> m = Robot \<or> \<bar>v\<bar> > 0.01 then (if v \<ge> 0 then 1 else - 1) else 0)"

definition currentTurnSpeed :: "mode \<Rightarrow> real" where
  "currentTurnSpeed m =
     (if m = Flight then turnSpeed * 1.2 else if m = Robot then turnSpeed * 0.8 else turnSpeed)"

definition rotYStep :: "mode \<Rightarrow> keys \<Rightarrow> real \<Rightarrow> real \<Rightarrow> real" where
  "rotYStep m ks v r =
     (let r1 = (if isTurningLeft ks then r + currentTurnSpeed m * steerEffect m v else r)
      in if isTurningRight ks then r1 - currentTurnSpeed m * steerEffect m v else r1)"

text \<open>Step 3: banking and height.\<close>

definition targetBanking :: "mode \<Rightarrow> keys \<Rightarrow> real" where
  "targetBanking m ks =
     (if m = Flight then (if isTurningLeft ks then 0.4 else if isTurningRight ks then - 0.4 else 0)
      else 0)"

definition targetHeight :: "mode \<Rightarrow> real \<Rightarrow> real" where
  "targetHeight m elapsedTime = (if m = Flight then 4.0 + sin (elapsedTime * 2) * 0.3 else 0)"

text \<open>
  The whole \<^verbatim>\<open>useFrame\<close> callback of \<^verbatim>\<open>VehicleController\<close>, for the mode \<open>m\<close> of the
  current render, the held keys and \<^verbatim>\<open>state.clock.elapsedTime\<close>. It returns at once
  while the group is not mounted.
\<close>

definition vehicleFrame :: "mode \<Rightarrow> keys \<Rightarrow> real \<Rightarrow> vehicle \<Rightarrow> vehicle" where
  "vehicleFrame m ks elapsedTime s =
     (case groupRef s of
        None \<Rightarrow> s
      | Some g \<Rightarrow>
         (let v = velocityStep m ks (velocity s);
              r = rotYStep m ks v (rotY s);
              b = lerp (banking s) (targetBanking m ks) 0.1;
              h = lerp (height s) (targetHeight m elapsedTime) 0.05;
              moveX = sin r * v;
              moveZ = cos r * v;
              w = Vector3 (vx (worldPos s) + moveX) h (vz (worldPos s) + moveZ)
          in \<lparr> velocity = v, rotY = r, height = h, banking = b,
               wheelRot = wheelRot s + v * 3, worldPos = w,
               groupRef = Some (w, b, r, 0),
               controlsRef =
                 (case controlsRef s of
                    None \<Rightarrow> None
                  | Some target \<Rightarrow>
                      Some (lerpV target
                             (addV w (Vector3 0 (if m = Robot then 3.0 else 0.8) 0)) 0.1)) \<rparr>))"

text \<open>The vehicle at mount: every ref at its initial value, the group present.\<close>

definition initialVehicle :: vehicle where
  "initialVehicle =
     \<lparr> velocity = 0, rotY = 0, height = 0, banking = 0, wheelRot = 0,
       worldPos = Vector3 0 0 0,
       groupRef = Some (Vector3 0 0 0, 0, 0, 0),
       controlsRef = Some (Vector3 0 0 0) \<rparr>"

text \<open>
  A run of frames: frame \<open>i\<close> is rendered with the mode, held keys and clock time
  \<open>inp i\<close>.
\<close>

fun frames :: "(nat \<Rightarrow> mode \<times> keys \<times> real) \<Rightarrow> nat \<Rightarrow> vehicle \<Rightarrow> vehicle" where
  "frames inp 0 s = s"
| "frames inp (Suc n) s =
     (case inp n of (m, ks, elapsedTime) \<Rightarrow> vehicleFrame m ks elapsedTime (frames inp n s))"

section \<open>Part animation (TransformerPart)\<close>

text \<open>
  \<^verbatim>\<open>THREE.Quaternion\<close> values are kept as the expression of library calls that built
  them: \<^verbatim>\<open>new THREE.Quaternion()\<close>, \<^verbatim>\<open>setFromEuler(new THREE.Euler(x, y, z))\<close>,
  \<^verbatim>\<open>a.clone().multiply(b)\<close> and \<^verbatim>\<open>a.slerp(b, t)\<close>. The arithmetic inside the library
  is not unfolded.
\<close>

datatype quaternion =
    Identity
  | SetFromEuler real real real
  | Multiply quaternion quaternion
  | Slerp quaternion quaternion real

fun setFromEuler :: "real \<times> real \<times> real \<Rightarrow> quaternion" where
  "setFromEuler (a, b, c) = SetFromEuler a b c"

text \<open>\<^verbatim>\<open>String.prototype.includes\<close>: the second string occurs in the first.\<close>

fun startsWith :: "string \<Rightarrow> string \<Rightarrow> bool" where
  "startsWith s [] = True"
| "startsWith [] (c # cs) = False"
| "startsWith (a # as) (c # cs) = (a = c \<and> startsWith as cs)"

fun includes_str :: "string \<Rightarrow> string \<Rightarrow> bool" where
  "includes_str [] t = (t = [])"
| "includes_str (a # as) t = (startsWith (a # as) t \<or> includes_str as t)"

text \<open>
  The props of \<^verbatim>\<open>TransformerPart\<close> that its \<^verbatim>\<open>useFrame\<close> callback reads. The optional
  \<^verbatim>\<open>flightPos\<close> and \<^verbatim>\<open>flightRot\<close> are \<^verbatim>\<open>undefined\<close> when not passed. The prop
  \<^verbatim>\<open>doorOpen\<close> is the field \<open>doorOpenProp\<close>. Geometry, colour and opacity only feed
  the renderer and are left out.
\<close>

record partProps =
  partType :: string
  carPos :: "real \<times> real \<times> real"
  carRot :: "real \<times> real \<times> real"
  robotPos :: "real \<times> real \<times> real"
  robotRot :: "real \<times> real \<times> real"
  flightPos :: "(real \<times> real \<times> real) option"
  flightRot :: "(real \<times> real \<times> real) option"
  isRobot :: bool
  isFlight :: bool
  doorOpenProp :: bool
  wheelRotation :: real
  time :: real

text \<open>
  \<^verbatim>\<open>targetP\<close>: the car position, overwritten by the robot position if \<^verbatim>\<open>isRobot\<close>, else
  by \<^verbatim>\<open>flightPos || carPos\<close> if \<^verbatim>\<open>isFlight\<close>.
\<close>

definition targetP :: "partProps \<Rightarrow> vector3" where
  "targetP p =
     (if isRobot p then fromArray (robotPos p)
      else if isFlight p then
        fromArray (case flightPos p of Some f \<Rightarrow> f | None \<Rightarrow> carPos p)
      else fromArray (carPos p))"

definition qBase :: "partProps \<Rightarrow> quaternion" where
  "qBase p =
     (if isRobot p then setFromEuler (robotRot p)
      else if isFlight p then
        setFromEuler (case flightRot p of Some f \<Rightarrow> f | None \<Rightarrow> carRot p)
      else setFromEuler (carRot p))"

text \<open>
  The secondary rotation \<^verbatim>\<open>dynamicQ\<close>. It starts as \<^verbatim>\<open>new THREE.Quaternion()\<close>
  (\<open>None\<close> here) and is set by at most one of three groups of statements; the value
  records which one set it, with the Euler angles it was given.
\<close>

datatype secondary = Flap | OpenAngle | Spin

definition dynamicQ :: "partProps \<Rightarrow> (secondary \<times> real \<times> real \<times> real) option" where
  "dynamicQ p =
     (let q0 = None;
          q1 =
            (if includes_str (partType p) ''door'' then
               (if isFlight p then
                  (let flap = sin (time p * 10) * 0.8;
                       qa = (if partType p = ''door_left''
                             then Some (Flap, 0, 0, pi / 4 + flap) else q0)
                   in if partType p = ''door_right''
                      then Some (Flap, 0, 0, - pi / 4 - flap) else qa)
                else if doorOpenProp p then
                  (let qa = (if partType p = ''door_left''
                             then Some (OpenAngle, 0, 0, pi / 2.2) else q0)
                   in if partType p = ''door_right''
                      then Some (OpenAngle, 0, 0, - pi / 2.2) else qa)
                else q0)
             else q0)
      in if partType p = ''wheel'' then
           (if \<not> isRobot p then Some (Spin, wheelRotation p, 0, 0) else q1)
         else q1)"

definition applied :: "partProps \<Rightarrow> secondary \<Rightarrow> bool" where
  "applied p k = (case dynamicQ p of None \<Rightarrow> False | Some (k', e) \<Rightarrow> k' = k)"

definition targetQ :: "partProps \<Rightarrow> quaternion" where
  "targetQ p =
     Multiply (qBase p) (case dynamicQ p of None \<Rightarrow> Identity | Some (k, e) \<Rightarrow> setFromEuler e)"

text \<open>
  The refs of a part: the group's position and quaternion once mounted, and the two
  uniforms (time, pixel ratio) of the sparkle material once it exists.
\<close>

record object3D =
  position :: vector3
  quaternion :: quaternion

record part =
  partGroupRef :: "object3D option"
  materialRef :: "(real \<times> real) option"

text \<open>
  The \<^verbatim>\<open>useFrame\<close> callback of \<^verbatim>\<open>TransformerPart\<close>, for the frame time \<^verbatim>\<open>delta\<close>, the
  clock time and the device pixel ratio.
\<close>

definition partFrame :: "partProps \<Rightarrow> real \<Rightarrow> real \<Rightarrow> real \<Rightarrow> part \<Rightarrow> part" where
  "partFrame p delta elapsedTime dpr s =
     (case partGroupRef s of
        None \<Rightarrow> s
      | Some g \<Rightarrow>
         (let lerpSpeed = 4 * delta
          in \<lparr> partGroupRef =
                 Some \<lparr> position = lerpV (position g) (targetP p) lerpSpeed,
                        quaternion = Slerp (quaternion g) (targetQ p) lerpSpeed \<rparr>,
               materialRef =
                 (case materialRef s of
                    None \<Rightarrow> None
                  | Some u \<Rightarrow> Some (elapsedTime, dpr)) \<rparr>))"

text \<open>
  One \<^verbatim>\<open><TransformerPart ... />\<close> element: the props passed, with the defaults
  \<^verbatim>\<open>wheelRotation = 0\<close> and \<^verbatim>\<open>time = 0\<close> of the destructuring.
\<close>

definition transformerPart ::
  "string \<Rightarrow> real \<times> real \<times> real \<Rightarrow> real \<times> real \<times> real \<Rightarrow> real \<times> real \<times> real
   \<Rightarrow> real \<times> real \<times> real \<Rightarrow> (real \<times> real \<times> real) option \<Rightarrow> (real \<times> real \<times> real) option
   \<Rightarrow> bool \<Rightarrow> bool \<Rightarrow> bool \<Rightarrow> partProps" where
  "transformerPart ty cp cr rp rr fp fr r f d =
     \<lparr> partType = ty, carPos = cp, carRot = cr, robotPos = rp, robotRot = rr,
       flightPos = fp, flightRot = fr, isRobot = r, isFlight = f, doorOpenProp = d,
       wheelRotation = 0, time = 0 \<rparr>"

text \<open>\<^verbatim>\<open>DiamondDriver\<close>: two parts, always with \<^verbatim>\<open>doorOpen={false}\<close>.\<close>

definition diamondDriver :: "bool \<Rightarrow> bool \<Rightarrow> partProps list" where
  "diamondDriver r f =
     [transformerPart ''driver_head'' (0, 0.95, - 0.3) (0, 0, 0) (0, 4.4, 0.4) (0, 0, 0)
        (Some (0, 0.95, - 0.3)) (Some (0, 0, 0)) r f False,
      transformerPart ''driver_body'' (0, 0.7, - 0.3) (0.3, 0, 0) (0, 4.1, 0.4) (0, 0, 0)
        (Some (0, 0.7, - 0.3)) (Some (0.3, 0, 0)) r f False]"

text \<open>The four wheels: \<^verbatim>\<open>[...].map((pos, i) => <TransformerPart partType="wheel" ... />)\<close>.\<close>

definition wheel :: "bool \<Rightarrow> bool \<Rightarrow> bool \<Rightarrow> real \<Rightarrow> nat \<times> real \<times> real \<times> real \<Rightarrow> partProps" where
  "wheel r f d w ip =
     (case ip of (i, a, b, c) \<Rightarrow>
        (transformerPart ''wheel'' (a, b, c) (0, 0, pi / 2)
           (if i mod 2 = 0 then 2.5 else - 2.5, if i < 2 then 4.8 else 0.4, 0) (0, 0, pi / 2)
           (Some (a * 0.9, b + 0.2, c)) (Some (pi / 2, 0, pi / 2)) r f d)
          \<lparr> wheelRotation := w \<rparr>)"

text \<open>\<^verbatim>\<open>CarAssembly\<close>: the parts of the vehicle, in the order of the markup.\<close>

definition carAssembly :: "bool \<Rightarrow> bool \<Rightarrow> bool \<Rightarrow> real \<Rightarrow> real \<Rightarrow> partProps list" where
  "carAssembly r f d w t =
     diamondDriver r f @
     [transformerPart ''torso'' (0, 0.7, 0.1) (0, 0, 0) (0, 4.0, 0) (0, 0, 0)
        (Some (0, 0.7, 0.1)) (Some (0, 0, 0)) r f d,
      transformerPart ''head'' (0, 0.7, 0.5) (0, 0, 0) (0, 5.5, 0) (0, 0, 0)
        (Some (0, 0.6, 0.5)) (Some (0, 0, 0)) r f d,
      (transformerPart ''door_left'' (1.2, 0.9, - 0.6) (0, 0, 0) (1.5, 4.8, - 1.0) (0, - 0.4, 1.4)
        (Some (1.2, 1.0, - 0.6)) (Some (0, 0, 0.3)) r f d) \<lparr> time := t \<rparr>,
      (transformerPart ''door_right'' (- 1.2, 0.9, - 0.6) (0, 0, 0) (- 1.5, 4.8, - 1.0) (0, 0.4, - 1.4)
        (Some (- 1.2, 1.0, - 0.6)) (Some (0, 0, - 0.3)) r f d) \<lparr> time := t \<rparr>] @
     map (wheel r f d w)
       [(0, 1.3, 0.45, 1.8), (1, - 1.3, 0.45, 1.8), (2, 1.3, 0.45, - 1.8), (3, - 1.3, 0.45, - 1.8)] @
     [transformerPart ''waist'' (0, 0.4, - 0.2) (0, 0, 0) (0, 2.8, 0) (0, 0, 0)
        (Some (0, 0.35, - 0.2)) (Some (0, 0, 0)) r f d,
      transformerPart ''leg_l'' (0.5, 0.4, - 1.5) (0, 0, 0) (0.7, 1.2, 0) (0, 0, 0)
        (Some (0.5, 0.4, - 1.5)) (Some (0, 0, 0)) r f d,
      transformerPart ''leg_r'' (- 0.5, 0.4, - 1.5) (0, 0, 0) (- 0.7, 1.2, 0) (0, 0, 0)
        (Some (- 0.5, 0.4, - 1.5)) (Some (0, 0, 0)) r f d]"

text \<open>
  The parts as \<^verbatim>\<open>VehicleController\<close> renders them for an application state:
  \<^verbatim>\<open>isRobot={mode === 'robot'} isFlight={mode === 'flight'} doorOpen={doorOpen}\<close>.
\<close>

definition renderParts :: "app \<Rightarrow> real \<Rightarrow> real \<Rightarrow> partProps list" where
  "renderParts s w t = carAssembly (mode s = Robot) (mode s = Flight) (doorOpen s) w t"

section \<open>Concrete inputs\<close>

text \<open>Both arrow keys for turning held down, nothing else.\<close>

definition bothTurnKeys :: keys where
  "bothTurnKeys = [''ArrowLeft'' \<mapsto> True, ''ArrowRight'' \<mapsto> True]"

text \<open>
  Sixty frames in flight mode with ArrowUp held, then the mode switched to car and
  ArrowDown held.
\<close>

definition flyThenBrake :: "nat \<Rightarrow> mode \<times> keys \<times> real" where
  "flyThenBrake i =
     (if i < 60 then (Flight, [''ArrowUp'' \<mapsto> True], 0) else (Car, [''ArrowDown'' \<mapsto> True], 0))"

text \<open>Frames in car mode with no key ever pressed.\<close>

definition coasting :: "nat \<Rightarrow> mode \<times> keys \<times> real" where
  "coasting i = (Car, Map.empty, 0)"

text \<open>
  The torso as rendered in robot mode, and its group still at the car pose, as it is
  on the first frame after the switch from car to robot.
\<close>

definition torsoAsRobot :: partProps where
  "torsoAsRobot =
     transformerPart ''torso'' (0, 0.7, 0.1) (0, 0, 0) (0, 4.0, 0) (0, 0, 0)
       (Some (0, 0.7, 0.1)) (Some (0, 0, 0)) True False False"

definition torsoAtCarPose :: part where
  "torsoAtCarPose =
     \<lparr> partGroupRef = Some \<lparr> position = Vector3 0 0.7 0.1, quaternion = Identity \<rparr>,
       materialRef = None \<rparr>"

text \<open>A part given no flight pose, and the left door (which has one), in flight mode.\<close>

definition bareInFlight :: partProps where
  "bareInFlight =
     transformerPart ''fin'' (0, 1, 2) (0.5, 0, 0) (0, 3, 0) (0, 0, 1) None None
       False True False"

definition leftDoorInFlight :: partProps where
  "leftDoorInFlight =
     (transformerPart ''door_left'' (1.2, 0.9, - 0.6) (0, 0, 0) (1.5, 4.8, - 1.0) (0, - 0.4, 1.4)
        (Some (1.2, 1.0, - 0.6)) (Some (0, 0, 0.3)) False True False) \<lparr> time := 0 \<rparr>"

text \<open>The group of the left door at its car position.\<close>

definition leftDoorAtCarPose :: part where
  "leftDoorAtCarPose =
     \<lparr> partGroupRef = Some \<lparr> position = Vector3 1.2 0.9 (- 0.6), quaternion = Identity \<rparr>,
       materialRef = None \<rparr>"

section \<open>Properties of the mode and door state machine\<close>

lemma doorInv_initialApp: "doorInv initialApp"
  by (simp add: doorInv_def initialApp_def)

lemma doorInv_exec: "doorInv s \<Longrightarrow> doorInv (exec s c)"
  by (cases c) (auto simp: doorInv_def toggleTransform_def toggleFlight_def toggleDoor_def)

lemma doorInv_foldl: "doorInv s \<Longrightarrow> doorInv (foldl exec s cs)"
  by (induction cs arbitrary: s) (simp_all add: doorInv_exec)

lemma doorInv_run_initial: "doorInv (run initialApp cs)"
  unfolding run_def by (rule doorInv_foldl [OF doorInv_initialApp])

text \<open>
  C4. ToggleRobot sends Car and Flight to Robot and Robot to Car; ToggleFlight sends Car
  and Robot to Flight and Flight to Car; and every transition of either command that
  leaves Car mode ends with the door closed, whatever it was before.
\<close>

theorem C4_toggle_transitions:
  "mode (exec \<lparr> mode = Car, doorOpen = d \<rparr> ToggleRobot) = Robot
   \<and> mode (exec \<lparr> mode = Flight, doorOpen = d \<rparr> ToggleRobot) = Robot
   \<and> mode (exec \<lparr> mode = Robot, doorOpen = d \<rparr> ToggleRobot) = Car
   \<and> mode (exec \<lparr> mode = Car, doorOpen = d \<rparr> ToggleFlight) = Flight
   \<and> mode (exec \<lparr> mode = Robot, doorOpen = d \<rparr> ToggleFlight) = Flight
   \<and> mode (exec \<lparr> mode = Flight, doorOpen = d \<rparr> ToggleFlight) = Car
   \<and> (\<forall>c s. mode s = Car \<and> mode (exec s c) \<noteq> Car \<longrightarrow> \<not> doorOpen (exec s c))"
proof -
  have "\<not> doorOpen (exec s c)" if "mode s = Car" "mode (exec s c) \<noteq> Car" for s c
    using that by (cases c) (auto simp: toggleTransform_def toggleFlight_def toggleDoor_def)
  then show ?thesis
    by (simp add: toggleTransform_def toggleFlight_def)
qed

theorem C4_toggle_transitions_witness:
  "mode \<lparr> mode = Car, doorOpen = True \<rparr> = Car
   \<and> mode (exec \<lparr> mode = Car, doorOpen = True \<rparr> ToggleRobot) \<noteq> Car
   \<and> \<not> doorOpen (exec \<lparr> mode = Car, doorOpen = True \<rparr> ToggleRobot)"
  using C4_toggle_transitions [of True]
  by (simp add: toggleTransform_def)

text \<open>
  C8. ToggleDoor outside Car mode (in particular in Flight mode) changes neither the
  door nor the mode; in Car mode it flips the door and keeps the mode.
\<close>

theorem C8_toggleDoor:
  "(mode s \<noteq> Car \<longrightarrow> exec s ToggleDoor = s)
   \<and> (mode s = Car \<longrightarrow>
        doorOpen (exec s ToggleDoor) = (\<not> doorOpen s) \<and> mode (exec s ToggleDoor) = Car)"
  by (simp add: toggleDoor_def)

theorem C8_toggleDoor_witness:
  "mode \<lparr> mode = Flight, doorOpen = False \<rparr> \<noteq> Car
   \<and> exec \<lparr> mode = Flight, doorOpen = False \<rparr> ToggleDoor = \<lparr> mode = Flight, doorOpen = False \<rparr>
   \<and> mode \<lparr> mode = Car, doorOpen = False \<rparr> = Car
   \<and> doorOpen (exec \<lparr> mode = Car, doorOpen = False \<rparr> ToggleDoor)"
  using C8_toggleDoor [of "\<lparr> mode = Flight, doorOpen = False \<rparr>"]
    C8_toggleDoor [of "\<lparr> mode = Car, doorOpen = False \<rparr>"]
  by simp

text \<open>
  C10. Every state reached from the initial state (Car, door closed) by any sequence of
  the three commands has the door closed unless the mode is Car.
\<close>

theorem C10_door_open_only_in_car:
  "mode (run initialApp cs) \<noteq> Car \<longrightarrow> \<not> doorOpen (run initialApp cs)"
  using doorInv_run_initial [of cs] by (auto simp: doorInv_def)

theorem C10_door_open_only_in_car_witness:
  "mode (run initialApp [ToggleDoor, ToggleFlight, ToggleDoor]) \<noteq> Car
   \<and> \<not> doorOpen (run initialApp [ToggleDoor, ToggleFlight, ToggleDoor])"
  using C10_door_open_only_in_car [of "[ToggleDoor, ToggleFlight, ToggleDoor]"]
  by (simp add: run_def initialApp_def toggleDoor_def toggleFlight_def)

section \<open>Properties of the locomotion step\<close>

lemma vehicleFrame_unmounted: "groupRef s = None \<Longrightarrow> vehicleFrame m ks t s = s"
  by (simp add: vehicleFrame_def)

lemma velocity_vehicleFrame:
  "groupRef s \<noteq> None \<Longrightarrow> velocity (vehicleFrame m ks t s) = velocityStep m ks (velocity s)"
  by (auto simp: vehicleFrame_def Let_def)

lemma rotY_vehicleFrame:
  "groupRef s \<noteq> None \<Longrightarrow>
   rotY (vehicleFrame m ks t s) = rotYStep m ks (velocity (vehicleFrame m ks t s)) (rotY s)"
  by (auto simp: vehicleFrame_def Let_def)

lemma banking_vehicleFrame:
  "groupRef s \<noteq> None \<Longrightarrow>
   banking (vehicleFrame m ks t s) = lerp (banking s) (targetBanking m ks) 0.1"
  by (auto simp: vehicleFrame_def Let_def)

lemma groupRef_vehicleFrame:
  "groupRef s \<noteq> None \<Longrightarrow> groupRef (vehicleFrame m ks t s) \<noteq> None"
  by (auto simp: vehicleFrame_def Let_def)

lemma groupRef_frames: "groupRef s \<noteq> None \<Longrightarrow> groupRef (frames inp n s) \<noteq> None"
proof (induction n)
  case 0
  then show ?case by simp
next
  case (Suc n)
  obtain m ks t where i: "inp n = (m, ks, t)" by (cases "inp n") auto
  show ?case using groupRef_vehicleFrame [OF Suc.IH [OF Suc.prems], of m ks t]
    by (simp add: i)
qed

lemma groupRef_initialVehicle: "groupRef initialVehicle \<noteq> None"
  by (simp add: initialVehicle_def)

subsection \<open>Speed limits\<close>

lemma currentMaxSpeed_pos: "0 < currentMaxSpeed m"
  by (simp add: currentMaxSpeed_def maxSpeed_def)

lemma velocityStep_in_range:
  assumes "- 0.5 * currentMaxSpeed m \<le> v" "v \<le> currentMaxSpeed m"
  shows "- 0.5 * currentMaxSpeed m \<le> velocityStep m ks v
         \<and> velocityStep m ks v \<le> currentMaxSpeed m"
  using assms currentMaxSpeed_pos [of m]
  by (cases m)
    (auto simp: velocityStep_def currentAccel_def acceleration_def deceleration_def
      currentMaxSpeed_def maxSpeed_def min_def max_def)

lemma velocity_flyThenBrake:
  "n \<le> 60 \<Longrightarrow> velocity (frames flyThenBrake n initialVehicle) = real n * 0.02"
proof (induction n)
  case 0
  show ?case by (simp add: initialVehicle_def)
next
  case (Suc n)
  have g: "groupRef (frames flyThenBrake n initialVehicle) \<noteq> None"
    by (rule groupRef_frames [OF groupRef_initialVehicle])
  have n: "n < 60" "n \<le> 60" using Suc.prems by simp_all
  have "velocity (frames flyThenBrake (Suc n) initialVehicle)
        = velocityStep Flight [''ArrowUp'' \<mapsto> True]
            (velocity (frames flyThenBrake n initialVehicle))"
    using n by (simp add: flyThenBrake_def velocity_vehicleFrame [OF g])
  also have "\<dots> = min (real n * 0.02 + 0.02) 1.2"
    by (simp add: Suc.IH [OF n(2)] velocityStep_def isMovingForward_def truthy_def
        currentAccel_def acceleration_def currentMaxSpeed_def maxSpeed_def)
  also have "\<dots> = real (Suc n) * 0.02"
    using n by (simp add: min_def algebra_simps)
  finally show ?case .
qed

text \<open>
  C1 (as amended). The maximum speed of every mode is positive: 0.8 in Car, 0.8 * 1.5
  in Flight, 0.8 * 0.4 in Robot. A frame started with the velocity inside
  [- 0.5 * maxSpeed(mode), maxSpeed(mode)] for the mode of that frame ends with the
  velocity inside the same interval, whatever keys are held.
\<close>

theorem C1_velocity_range_preserved:
  "0 < currentMaxSpeed m
   \<and> currentMaxSpeed Car = 0.8 \<and> currentMaxSpeed Flight = 0.8 * 1.5
   \<and> currentMaxSpeed Robot = 0.8 * 0.4
   \<and> (- 0.5 * currentMaxSpeed m \<le> velocity s \<and> velocity s \<le> currentMaxSpeed m \<longrightarrow>
        - 0.5 * currentMaxSpeed m \<le> velocity (vehicleFrame m ks t s)
        \<and> velocity (vehicleFrame m ks t s) \<le> currentMaxSpeed m)"
proof -
  have "- 0.5 * currentMaxSpeed m \<le> velocity (vehicleFrame m ks t s)
        \<and> velocity (vehicleFrame m ks t s) \<le> currentMaxSpeed m"
    if "- 0.5 * currentMaxSpeed m \<le> velocity s" "velocity s \<le> currentMaxSpeed m"
  proof (cases "groupRef s")
    case None
    then show ?thesis using that by (simp add: vehicleFrame_unmounted)
  next
    case (Some g)
    then show ?thesis
      using velocityStep_in_range [OF that] by (simp add: velocity_vehicleFrame)
  qed
  moreover have "currentMaxSpeed Car = 0.8" "currentMaxSpeed Flight = 0.8 * 1.5"
    "currentMaxSpeed Robot = 0.8 * 0.4"
    by (simp_all add: currentMaxSpeed_def maxSpeed_def)
  ultimately show ?thesis using currentMaxSpeed_pos [of m] by blast
qed

theorem C1_velocity_range_preserved_witness:
  "- 0.5 * currentMaxSpeed Robot \<le> velocity (initialVehicle\<lparr> velocity := 0.32 \<rparr>)
   \<and> velocity (initialVehicle\<lparr> velocity := 0.32 \<rparr>) \<le> currentMaxSpeed Robot
   \<and> - 0.5 * currentMaxSpeed Robot
        \<le> velocity (vehicleFrame Robot [''KeyW'' \<mapsto> True] 0 (initialVehicle\<lparr> velocity := 0.32 \<rparr>))
   \<and> velocity (vehicleFrame Robot [''KeyW'' \<mapsto> True] 0 (initialVehicle\<lparr> velocity := 0.32 \<rparr>))
        \<le> currentMaxSpeed Robot"
  using C1_velocity_range_preserved
    [of Robot "initialVehicle\<lparr> velocity := 0.32 \<rparr>" "[''KeyW'' \<mapsto> True]" 0]
  by (simp add: currentMaxSpeed_def maxSpeed_def)

text \<open>
  The claim as written, for any prior velocity, fails: after sixty frames of flight
  with ArrowUp held the velocity is 1.2; the next frame, in car mode with ArrowDown
  held, leaves it at 1.18, above the car's maximum speed 0.8.
\<close>

theorem C1_velocity_after_mode_switch_counterexample:
  "velocity (frames flyThenBrake 60 initialVehicle) = 1.2
   \<and> flyThenBrake 60 = (Car, [''ArrowDown'' \<mapsto> True], 0)
   \<and> velocity (frames flyThenBrake 61 initialVehicle) = 1.18
   \<and> \<not> velocity (frames flyThenBrake 61 initialVehicle) \<le> currentMaxSpeed Car"
proof -
  have v60: "velocity (frames flyThenBrake 60 initialVehicle) = 1.2"
    by (simp add: velocity_flyThenBrake)
  have g: "groupRef (frames flyThenBrake 60 initialVehicle) \<noteq> None"
    by (rule groupRef_frames [OF groupRef_initialVehicle])
  have i: "flyThenBrake 60 = (Car, [''ArrowDown'' \<mapsto> True], 0)"
    by (simp add: flyThenBrake_def)
  have "frames flyThenBrake 61 initialVehicle
        = vehicleFrame Car [''ArrowDown'' \<mapsto> True] 0 (frames flyThenBrake 60 initialVehicle)"
    using frames.simps(2) [of flyThenBrake 60 initialVehicle] by (simp add: i)
  then have "velocity (frames flyThenBrake 61 initialVehicle)
        = velocityStep Car [''ArrowDown'' \<mapsto> True] 1.2"
    by (simp add: velocity_vehicleFrame [OF g] v60)
  also have "\<dots> = 1.18"
    by (simp add: velocityStep_def isMovingForward_def isMovingBackward_def truthy_def
        currentAccel_def acceleration_def currentMaxSpeed_def maxSpeed_def)
  finally have v61: "velocity (frames flyThenBrake 61 initialVehicle) = 1.18" .
  have "\<not> (1.18 :: real) \<le> currentMaxSpeed Car"
    by (simp add: currentMaxSpeed_def maxSpeed_def)
  then show ?thesis using v60 i v61 by simp
qed

subsection \<open>Banking\<close>

lemma lerp_error: "lerp a b t - b = (1 - t) * (a - b)"
  by (simp add: lerp_def algebra_simps)

lemma shrink: "0 < (d::real) \<Longrightarrow> d' = 0.9 * d \<Longrightarrow> 0 < d' \<and> d' < d"
  by simp

text \<open>
  C5 (as amended). The target bank angle is nonzero only in Flight mode. In Flight it
  is + 0.4 when only TurnLeft is held, - 0.4 when only TurnRight is held, and 0 when
  neither is held. Each frame moves the bank angle
  to banking + 0.1 * (target - banking): the remaining error is 0.9 times the old
  one, so an angle away from the target gets strictly closer and does not reach it.
\<close>

theorem C5_banking:
  "(targetBanking m ks \<noteq> 0 \<longrightarrow> m = Flight)
   \<and> (m = Flight \<and> isTurningLeft ks \<and> \<not> isTurningRight ks \<longrightarrow> targetBanking m ks = 0.4)
   \<and> (m = Flight \<and> \<not> isTurningLeft ks \<and> isTurningRight ks \<longrightarrow> targetBanking m ks = - 0.4)
   \<and> (\<not> isTurningLeft ks \<and> \<not> isTurningRight ks \<longrightarrow> targetBanking m ks = 0)
   \<and> (groupRef s \<noteq> None \<longrightarrow>
        banking (vehicleFrame m ks t s) - targetBanking m ks
          = 0.9 * (banking s - targetBanking m ks))
   \<and> (groupRef s \<noteq> None \<and> banking s \<noteq> targetBanking m ks \<longrightarrow>
        banking (vehicleFrame m ks t s) \<noteq> targetBanking m ks
        \<and> \<bar>banking (vehicleFrame m ks t s) - targetBanking m ks\<bar>
            < \<bar>banking s - targetBanking m ks\<bar>)"
proof -
  have e: "banking (vehicleFrame m ks t s) - targetBanking m ks
          = 0.9 * (banking s - targetBanking m ks)" if "groupRef s \<noteq> None"
    using that by (simp add: banking_vehicleFrame lerp_error)
  have "banking (vehicleFrame m ks t s) \<noteq> targetBanking m ks
        \<and> \<bar>banking (vehicleFrame m ks t s) - targetBanking m ks\<bar>
            < \<bar>banking s - targetBanking m ks\<bar>"
    if "groupRef s \<noteq> None" "banking s \<noteq> targetBanking m ks"
  proof -
    have pos: "0 < \<bar>banking s - targetBanking m ks\<bar>" using that(2) by simp
    have eq: "\<bar>banking (vehicleFrame m ks t s) - targetBanking m ks\<bar>
        = 0.9 * \<bar>banking s - targetBanking m ks\<bar>"
      unfolding e [OF that(1)] by (simp only: abs_mult)
    show ?thesis using shrink [OF pos eq] by simp
  qed
  then show ?thesis using e by (simp add: targetBanking_def)
qed

theorem C5_banking_witness:
  "targetBanking Flight [''KeyD'' \<mapsto> True] \<noteq> 0
   \<and> \<not> isTurningLeft [''KeyD'' \<mapsto> True] \<and> isTurningRight [''KeyD'' \<mapsto> True]
   \<and> targetBanking Flight [''KeyD'' \<mapsto> True] = - 0.4
   \<and> groupRef initialVehicle \<noteq> None
   \<and> banking initialVehicle \<noteq> targetBanking Flight [''KeyD'' \<mapsto> True]
   \<and> banking (vehicleFrame Flight [''KeyD'' \<mapsto> True] 0 initialVehicle)
        \<noteq> targetBanking Flight [''KeyD'' \<mapsto> True]
   \<and> \<bar>banking (vehicleFrame Flight [''KeyD'' \<mapsto> True] 0 initialVehicle)
        - targetBanking Flight [''KeyD'' \<mapsto> True]\<bar>
        < \<bar>banking initialVehicle - targetBanking Flight [''KeyD'' \<mapsto> True]\<bar>
   \<and> targetBanking Flight [''KeyA'' \<mapsto> True] = 0.4
   \<and> targetBanking Flight Map.empty = 0"
proof -
  have k: "\<not> isTurningLeft [''KeyD'' \<mapsto> True]" "isTurningRight [''KeyD'' \<mapsto> True]"
    "isTurningLeft [''KeyA'' \<mapsto> True]" "\<not> isTurningRight [''KeyA'' \<mapsto> True]"
    "\<not> isTurningLeft Map.empty" "\<not> isTurningRight Map.empty"
    by (simp_all add: isTurningLeft_def isTurningRight_def truthy_def)
  have g: "groupRef initialVehicle \<noteq> None" "banking initialVehicle = 0"
    by (simp_all add: initialVehicle_def)
  show ?thesis
    using C5_banking [of Flight "[''KeyD'' \<mapsto> True]" initialVehicle 0]
      C5_banking [of Flight "[''KeyA'' \<mapsto> True]" initialVehicle 0]
      C5_banking [of Flight Map.empty initialVehicle 0] k g
    by simp
qed

text \<open>
  The claim as written gives 0 when both turn keys are held. The code tests TurnLeft
  first, so with both held in Flight mode the target is + 0.4.
\<close>

theorem C5_banking_both_keys_counterexample:
  "isTurningLeft bothTurnKeys \<and> isTurningRight bothTurnKeys
   \<and> targetBanking Flight bothTurnKeys = 0.4
   \<and> targetBanking Flight bothTurnKeys \<noteq> 0"
  by (simp add: targetBanking_def bothTurnKeys_def isTurningLeft_def isTurningRight_def
      truthy_def)

subsection \<open>Steering\<close>

lemma currentTurnSpeed_pos: "0 < currentTurnSpeed m"
  by (simp add: currentTurnSpeed_def turnSpeed_def)

lemma rotYStep_eq:
  "rotYStep m ks v r =
     r + currentTurnSpeed m * steerEffect m v
          * ((if isTurningLeft ks then 1 else 0) - (if isTurningRight ks then 1 else 0))"
  by (simp add: rotYStep_def Let_def)

text \<open>
  C6 (as amended). The velocity meant is the one the steering code reads, that is the
  velocity at the end of the same frame. When it is 0: in Car mode the heading does
  not change; in Flight or Robot mode the heading changes if exactly one of TurnLeft
  and TurnRight is held. In general the heading moves by turnSpeed(mode) * steerEffect
  for TurnLeft and by the opposite for TurnRight; steerEffect is nonzero exactly when
  |velocity| > 0.01 or the mode is Flight or Robot, and then it is + 1 for velocity
  >= 0 and - 1 for velocity < 0 (the sign of a nonzero velocity).
\<close>

theorem C6_steering:
  "(groupRef s \<noteq> None \<and> m = Car \<and> velocity (vehicleFrame m ks t s) = 0 \<longrightarrow>
      rotY (vehicleFrame m ks t s) = rotY s)
   \<and> (groupRef s \<noteq> None \<and> m \<noteq> Car \<and> velocity (vehicleFrame m ks t s) = 0
        \<and> isTurningLeft ks \<noteq> isTurningRight ks \<longrightarrow>
      rotY (vehicleFrame m ks t s) \<noteq> rotY s)
   \<and> (groupRef s \<noteq> None \<longrightarrow>
      rotY (vehicleFrame m ks t s) =
        rotY s + currentTurnSpeed m * steerEffect m (velocity (vehicleFrame m ks t s))
          * ((if isTurningLeft ks then 1 else 0) - (if isTurningRight ks then 1 else 0)))
   \<and> (steerEffect m v \<noteq> 0 \<longleftrightarrow> \<bar>v\<bar> > 0.01 \<or> m = Flight \<or> m = Robot)
   \<and> (steerEffect m v \<noteq> 0 \<longrightarrow> steerEffect m v = (if v \<ge> 0 then 1 else - 1))
   \<and> (steerEffect m v \<noteq> 0 \<and> v \<noteq> 0 \<longrightarrow> steerEffect m v = sgn v)"
proof -
  have a: "rotY (vehicleFrame m ks t s) = rotY s"
    if "groupRef s \<noteq> None" "m = Car" "velocity (vehicleFrame m ks t s) = 0"
    using that by (simp add: rotY_vehicleFrame rotYStep_eq steerEffect_def)
  have b: "rotY (vehicleFrame m ks t s) \<noteq> rotY s"
    if "groupRef s \<noteq> None" "m \<noteq> Car" "velocity (vehicleFrame m ks t s) = 0"
      "isTurningLeft ks \<noteq> isTurningRight ks"
  proof -
    have "steerEffect m 0 = 1" using that(2) by (cases m) (simp_all add: steerEffect_def)
    then show ?thesis
      using that currentTurnSpeed_pos [of m] by (auto simp: rotY_vehicleFrame rotYStep_eq)
  qed
  have c: "rotY (vehicleFrame m ks t s) =
        rotY s + currentTurnSpeed m * steerEffect m (velocity (vehicleFrame m ks t s))
          * ((if isTurningLeft ks then 1 else 0) - (if isTurningRight ks then 1 else 0))"
    if "groupRef s \<noteq> None"
    by (rule trans [OF rotY_vehicleFrame [OF that] rotYStep_eq])
  have d: "(steerEffect m v \<noteq> 0 \<longleftrightarrow> \<bar>v\<bar> > 0.01 \<or> m = Flight \<or> m = Robot)"
    "steerEffect m v \<noteq> 0 \<longrightarrow> steerEffect m v = (if v \<ge> 0 then 1 else - 1)"
    "steerEffect m v \<noteq> 0 \<and> v \<noteq> 0 \<longrightarrow> steerEffect m v = sgn v"
    by (auto simp: steerEffect_def sgn_if)
  show ?thesis using a b c d by blast
qed

theorem C6_steering_witness:
  "groupRef initialVehicle \<noteq> None
   \<and> velocity (vehicleFrame Car [''ArrowLeft'' \<mapsto> True] 0 initialVehicle) = 0
   \<and> rotY (vehicleFrame Car [''ArrowLeft'' \<mapsto> True] 0 initialVehicle) = rotY initialVehicle
   \<and> Robot \<noteq> Car
   \<and> velocity (vehicleFrame Robot [''ArrowLeft'' \<mapsto> True] 0 initialVehicle) = 0
   \<and> isTurningLeft [''ArrowLeft'' \<mapsto> True] \<noteq> isTurningRight [''ArrowLeft'' \<mapsto> True]
   \<and> rotY (vehicleFrame Robot [''ArrowLeft'' \<mapsto> True] 0 initialVehicle) \<noteq> rotY initialVehicle
   \<and> steerEffect Car (- 0.4) \<noteq> 0
   \<and> steerEffect Car (- 0.4) = sgn (- 0.4)"
proof -
  have g: "groupRef initialVehicle \<noteq> None" by (rule groupRef_initialVehicle)
  have k: "isTurningLeft [''ArrowLeft'' \<mapsto> True]" "\<not> isTurningRight [''ArrowLeft'' \<mapsto> True]"
    by (simp_all add: isTurningLeft_def isTurningRight_def truthy_def)
  have v: "velocity (vehicleFrame m [''ArrowLeft'' \<mapsto> True] 0 initialVehicle) = 0" for m
    unfolding velocity_vehicleFrame [OF g]
    by (simp add: velocityStep_def isMovingForward_def isMovingBackward_def truthy_def
        initialVehicle_def)
  have e: "steerEffect Car (- 0.4) \<noteq> 0" "(- 0.4 :: real) \<noteq> 0" "Robot \<noteq> Car"
    by (simp_all add: steerEffect_def)
  note car = C6_steering [of initialVehicle Car "[''ArrowLeft'' \<mapsto> True]" 0 "- 0.4"]
  note robot = C6_steering [of initialVehicle Robot "[''ArrowLeft'' \<mapsto> True]" 0 "- 0.4"]
  have "rotY (vehicleFrame Car [''ArrowLeft'' \<mapsto> True] 0 initialVehicle) = rotY initialVehicle"
    using car g v by blast
  moreover have "rotY (vehicleFrame Robot [''ArrowLeft'' \<mapsto> True] 0 initialVehicle)
      \<noteq> rotY initialVehicle"
    using robot g v k e(3) by blast
  moreover have "steerEffect Car (- 0.4) = sgn (- 0.4)"
    using car e(1,2) by blast
  ultimately show ?thesis using g k v e by simp
qed

text \<open>
  The claim as written lets any turn key be held. With both held at rest in Flight
  mode the two heading updates cancel and the heading does not change.
\<close>

theorem C6_both_turn_keys_counterexample:
  "isTurningLeft bothTurnKeys \<and> isTurningRight bothTurnKeys
   \<and> velocity (vehicleFrame Flight bothTurnKeys 0 initialVehicle) = 0
   \<and> rotY (vehicleFrame Flight bothTurnKeys 0 initialVehicle) = rotY initialVehicle"
  by (simp add: vehicleFrame_def initialVehicle_def bothTurnKeys_def Let_def velocityStep_def
      rotYStep_def isTurningLeft_def isTurningRight_def isMovingForward_def
      isMovingBackward_def truthy_def)

subsection \<open>Coasting\<close>

lemma velocityStep_idle:
  "\<not> isMovingForward ks \<Longrightarrow> \<not> isMovingBackward ks \<Longrightarrow> velocityStep m ks v = v * deceleration"
  by (simp add: velocityStep_def)

lemma velocity_frames_idle_Suc:
  assumes "groupRef s \<noteq> None"
    and "\<not> isMovingForward (fst (snd (inp n)))" "\<not> isMovingBackward (fst (snd (inp n)))"
  shows "velocity (frames inp (Suc n) s) = velocity (frames inp n s) * deceleration"
proof -
  obtain m ks t where i: "inp n = (m, ks, t)" by (cases "inp n") auto
  show ?thesis
    using assms(2,3) velocity_vehicleFrame [OF groupRef_frames [OF assms(1)], of m ks t inp n]
    by (simp add: i velocityStep_idle)
qed

lemma velocity_frames_idle:
  assumes "groupRef s \<noteq> None"
    and "\<forall>i. \<not> isMovingForward (fst (snd (inp i))) \<and> \<not> isMovingBackward (fst (snd (inp i)))"
  shows "velocity (frames inp n s) = velocity s * deceleration ^ n"
proof (induction n)
  case 0
  show ?case by simp
next
  case (Suc n)
  show ?case using velocity_frames_idle_Suc [OF assms(1), of inp n] assms(2) Suc
    by simp
qed

text \<open>
  C7. In a run of frames (of any modes) on none of which a movement key is held, every
  frame multiplies the velocity by the deceleration factor 0.95; so the magnitude of
  the velocity never grows, it shrinks strictly while the velocity is not 0, the sign
  of the velocity stays that of the starting velocity, and the velocity tends to 0.
\<close>

theorem C7_idle_decay:
  "groupRef s \<noteq> None
   \<and> (\<forall>i. \<not> isMovingForward (fst (snd (inp i))) \<and> \<not> isMovingBackward (fst (snd (inp i))))
   \<longrightarrow>
     (\<forall>n. velocity (frames inp (Suc n) s) = velocity (frames inp n s) * deceleration)
     \<and> (\<forall>n. \<bar>velocity (frames inp (Suc n) s)\<bar> \<le> \<bar>velocity (frames inp n s)\<bar>)
     \<and> (\<forall>n. velocity s \<noteq> 0 \<longrightarrow>
            \<bar>velocity (frames inp (Suc n) s)\<bar> < \<bar>velocity (frames inp n s)\<bar>)
     \<and> (\<forall>n. sgn (velocity (frames inp n s)) = sgn (velocity s))
     \<and> (\<lambda>n. velocity (frames inp n s)) \<longlonglongrightarrow> 0"
proof (intro impI, elim conjE)
  assume g: "groupRef s \<noteq> None"
    and idle: "\<forall>i. \<not> isMovingForward (fst (snd (inp i))) \<and> \<not> isMovingBackward (fst (snd (inp i)))"
  have closed: "velocity (frames inp n s) = velocity s * deceleration ^ n" for n
    by (rule velocity_frames_idle [OF g idle])
  have step: "velocity (frames inp (Suc n) s) = velocity (frames inp n s) * deceleration" for n
    using velocity_frames_idle_Suc [OF g, of inp n] idle by simp
  have mono: "\<bar>velocity (frames inp (Suc n) s)\<bar> \<le> \<bar>velocity (frames inp n s)\<bar>" for n
  proof -
    have "\<bar>velocity (frames inp (Suc n) s)\<bar> = \<bar>velocity (frames inp n s)\<bar> * 0.95"
      unfolding step by (simp add: abs_mult deceleration_def)
    then show ?thesis by simp
  qed
  have strict: "\<bar>velocity (frames inp (Suc n) s)\<bar> < \<bar>velocity (frames inp n s)\<bar>"
    if "velocity s \<noteq> 0" for n
  proof -
    have "velocity (frames inp n s) \<noteq> 0" using that by (simp add: closed deceleration_def)
    then have "0 < \<bar>velocity (frames inp n s)\<bar>" by simp
    moreover have "\<bar>velocity (frames inp (Suc n) s)\<bar> = \<bar>velocity (frames inp n s)\<bar> * 0.95"
      unfolding step by (simp add: abs_mult deceleration_def)
    ultimately show ?thesis by simp
  qed
  have sign: "sgn (velocity (frames inp n s)) = sgn (velocity s)" for n
    by (simp add: closed sgn_mult deceleration_def)
  have "(\<lambda>n. deceleration ^ n) \<longlonglongrightarrow> 0"
    by (rule LIMSEQ_realpow_zero) (simp_all add: deceleration_def)
  then have "(\<lambda>n. velocity s * deceleration ^ n) \<longlonglongrightarrow> 0"
    by (rule tendsto_mult_right_zero)
  then have lim: "(\<lambda>n. velocity (frames inp n s)) \<longlonglongrightarrow> 0"
    by (simp add: closed)
  show "(\<forall>n. velocity (frames inp (Suc n) s) = velocity (frames inp n s) * deceleration)
     \<and> (\<forall>n. \<bar>velocity (frames inp (Suc n) s)\<bar> \<le> \<bar>velocity (frames inp n s)\<bar>)
     \<and> (\<forall>n. velocity s \<noteq> 0 \<longrightarrow>
            \<bar>velocity (frames inp (Suc n) s)\<bar> < \<bar>velocity (frames inp n s)\<bar>)
     \<and> (\<forall>n. sgn (velocity (frames inp n s)) = sgn (velocity s))
     \<and> (\<lambda>n. velocity (frames inp n s)) \<longlonglongrightarrow> 0"
    using step mono strict sign lim by blast
qed

theorem C7_idle_decay_witness:
  "groupRef (initialVehicle\<lparr> velocity := - 0.4 \<rparr>) \<noteq> None
   \<and> (\<forall>i. \<not> isMovingForward (fst (snd (coasting i))) \<and> \<not> isMovingBackward (fst (snd (coasting i))))
   \<and> velocity (initialVehicle\<lparr> velocity := - 0.4 \<rparr>) \<noteq> 0
   \<and> (\<forall>n. \<bar>velocity (frames coasting (Suc n) (initialVehicle\<lparr> velocity := - 0.4 \<rparr>))\<bar>
          < \<bar>velocity (frames coasting n (initialVehicle\<lparr> velocity := - 0.4 \<rparr>))\<bar>)
   \<and> (\<forall>n. sgn (velocity (frames coasting n (initialVehicle\<lparr> velocity := - 0.4 \<rparr>))) = - 1)
   \<and> (\<lambda>n. velocity (frames coasting n (initialVehicle\<lparr> velocity := - 0.4 \<rparr>))) \<longlonglongrightarrow> 0"
proof -
  have g: "groupRef (initialVehicle\<lparr> velocity := - 0.4 \<rparr>) \<noteq> None"
    by (simp add: initialVehicle_def)
  have i: "\<forall>i. \<not> isMovingForward (fst (snd (coasting i))) \<and> \<not> isMovingBackward (fst (snd (coasting i)))"
    by (simp add: coasting_def isMovingForward_def isMovingBackward_def truthy_def)
  have v: "velocity (initialVehicle\<lparr> velocity := - 0.4 \<rparr>) \<noteq> 0"
    "sgn (velocity (initialVehicle\<lparr> velocity := - 0.4 \<rparr>)) = - 1"
    by simp_all
  let ?s = "initialVehicle\<lparr> velocity := - 0.4 \<rparr>"
  have c: "(\<forall>n. velocity ?s \<noteq> 0 \<longrightarrow>
            \<bar>velocity (frames coasting (Suc n) ?s)\<bar> < \<bar>velocity (frames coasting n ?s)\<bar>)
     \<and> (\<forall>n. sgn (velocity (frames coasting n ?s)) = sgn (velocity ?s))
     \<and> (\<lambda>n. velocity (frames coasting n ?s)) \<longlonglongrightarrow> 0"
    using C7_idle_decay [of ?s coasting] g i by blast
  have s1: "\<forall>n. \<bar>velocity (frames coasting (Suc n) ?s)\<bar> < \<bar>velocity (frames coasting n ?s)\<bar>"
    using c v(1) by blast
  have s2: "\<forall>n. sgn (velocity (frames coasting n ?s)) = - 1"
    using c unfolding v(2) by blast
  have s3: "(\<lambda>n. velocity (frames coasting n ?s)) \<longlonglongrightarrow> 0"
    using c by blast
  show ?thesis using g i v(1) s1 s2 s3 by blast
qed

section \<open>Properties of the part animation\<close>

subsection \<open>Position smoothing\<close>

lemma lerpV_sel [simp]:
  "vx (lerpV p q a) = vx p + (vx q - vx p) * a"
  "vy (lerpV p q a) = vy p + (vy q - vy p) * a"
  "vz (lerpV p q a) = vz p + (vz q - vz p) * a"
  by (cases p; cases q; simp)+

lemma distanceTo_lerpV: "distanceTo (lerpV p q a) q = \<bar>1 - a\<bar> * distanceTo p q"
proof -
  have "(vx (lerpV p q a) - vx q)\<^sup>2 + (vy (lerpV p q a) - vy q)\<^sup>2 + (vz (lerpV p q a) - vz q)\<^sup>2
      = (1 - a)\<^sup>2 * ((vx p - vx q)\<^sup>2 + (vy p - vy q)\<^sup>2 + (vz p - vz q)\<^sup>2)"
    by (simp add: power2_eq_square algebra_simps)
  then show ?thesis
    by (simp add: distanceTo_def real_sqrt_mult)
qed

lemma distanceTo_pos: "p \<noteq> q \<Longrightarrow> 0 < distanceTo p q"
proof -
  assume "p \<noteq> q"
  then have "vx p \<noteq> vx q \<or> vy p \<noteq> vy q \<or> vz p \<noteq> vz q"
    by (cases p; cases q) auto
  then have "0 < (vx p - vx q)\<^sup>2 + (vy p - vy q)\<^sup>2 + (vz p - vz q)\<^sup>2"
    by (auto simp: add_pos_nonneg add_nonneg_pos)
  then show ?thesis by (simp add: distanceTo_def)
qed

lemma lerp_between:
  fixes a b t :: real
  assumes "0 \<le> t" "t \<le> 1"
  shows "min a b \<le> a + (b - a) * t \<and> a + (b - a) * t \<le> max a b"
proof (cases "a \<le> b")
  case True
  have u: "0 \<le> (b - a) * t"
    using True assms(1) by (intro mult_nonneg_nonneg) simp_all
  have "(b - a) * t \<le> (b - a) * 1"
    using True assms(2) by (intro mult_left_mono) simp_all
  then have v: "(b - a) * t \<le> b - a" by (simp only: mult_1_right)
  have "min a b \<le> a + (b - a) * t" using True u by linarith
  moreover have "a + (b - a) * t \<le> max a b" using True v by linarith
  ultimately show ?thesis by (rule conjI)
next
  case False
  have u: "(b - a) * t \<le> 0"
    using False assms(1) by (intro mult_nonpos_nonneg) simp_all
  have "(b - a) * 1 \<le> (b - a) * t"
    using False assms(2) by (intro mult_left_mono_neg) simp_all
  then have v: "b - a \<le> (b - a) * t" by (simp only: mult_1_right)
  have "min a b \<le> a + (b - a) * t" using False v by linarith
  moreover have "a + (b - a) * t \<le> max a b" using False u by linarith
  ultimately show ?thesis by (rule conjI)
qed

lemma partFrame_group:
  "partGroupRef s = Some g \<Longrightarrow>
   partGroupRef (partFrame p delta e dpr s)
     = Some \<lparr> position = lerpV (position g) (targetP p) (4 * delta),
              quaternion = Slerp (quaternion g) (targetQ p) (4 * delta) \<rparr>"
  by (simp add: partFrame_def Let_def)

text \<open>
  C2 (as amended). Every frame moves the position of a mounted part to
  position + (target - position) * (4 * delta), for every frame time delta: the factor
  4 * delta is not clamped. The distance to the target is multiplied by
  |1 - 4 * delta|. For 0 < delta and 4 * delta <= 1 (where 4 * delta = min(1, 4 * delta))
  each coordinate of the new position lies between its old value and the target (no
  overshoot). For 0 < delta < 1/2 the distance to the target decreases strictly when
  the part is not already at the target.
\<close>

theorem C2_position_smoothing:
  "partGroupRef s = Some g \<longrightarrow>
     (\<exists>g'. partGroupRef (partFrame p delta e dpr s) = Some g'
        \<and> position g' = lerpV (position g) (targetP p) (4 * delta)
        \<and> distanceTo (position g') (targetP p)
            = \<bar>1 - 4 * delta\<bar> * distanceTo (position g) (targetP p)
        \<and> (0 < delta \<and> 4 * delta \<le> 1 \<longrightarrow>
             4 * delta = min 1 (4 * delta)
             \<and> min (vx (position g)) (vx (targetP p)) \<le> vx (position g')
             \<and> vx (position g') \<le> max (vx (position g)) (vx (targetP p))
             \<and> min (vy (position g)) (vy (targetP p)) \<le> vy (position g')
             \<and> vy (position g') \<le> max (vy (position g)) (vy (targetP p))
             \<and> min (vz (position g)) (vz (targetP p)) \<le> vz (position g')
             \<and> vz (position g') \<le> max (vz (position g)) (vz (targetP p)))
        \<and> (0 < delta \<and> 2 * delta < 1 \<and> position g \<noteq> targetP p \<longrightarrow>
             distanceTo (position g') (targetP p) < distanceTo (position g) (targetP p)))"
proof
  assume g: "partGroupRef s = Some g"
  define g' where "g' = \<lparr> position = lerpV (position g) (targetP p) (4 * delta),
              quaternion = Slerp (quaternion g) (targetQ p) (4 * delta) \<rparr>"
  have g': "partGroupRef (partFrame p delta e dpr s) = Some g'"
    unfolding g'_def by (rule partFrame_group [OF g])
  have pos: "position g' = lerpV (position g) (targetP p) (4 * delta)"
    by (simp add: g'_def)
  have dist: "distanceTo (position g') (targetP p)
            = \<bar>1 - 4 * delta\<bar> * distanceTo (position g) (targetP p)"
    by (simp only: pos distanceTo_lerpV)
  have between: "4 * delta = min 1 (4 * delta)
             \<and> min (vx (position g)) (vx (targetP p)) \<le> vx (position g')
             \<and> vx (position g') \<le> max (vx (position g)) (vx (targetP p))
             \<and> min (vy (position g)) (vy (targetP p)) \<le> vy (position g')
             \<and> vy (position g') \<le> max (vy (position g)) (vy (targetP p))
             \<and> min (vz (position g)) (vz (targetP p)) \<le> vz (position g')
             \<and> vz (position g') \<le> max (vz (position g)) (vz (targetP p))"
    if d: "0 < delta" "4 * delta \<le> 1"
  proof -
    have t: "0 \<le> 4 * delta" using d by simp
    have "4 * delta = min 1 (4 * delta)" using d by simp
    moreover have "min (vx (position g)) (vx (targetP p)) \<le> vx (position g')
        \<and> vx (position g') \<le> max (vx (position g)) (vx (targetP p))"
      using lerp_between [OF t d(2), of "vx (position g)" "vx (targetP p)"]
      by (simp add: pos)
    moreover have "min (vy (position g)) (vy (targetP p)) \<le> vy (position g')
        \<and> vy (position g') \<le> max (vy (position g)) (vy (targetP p))"
      using lerp_between [OF t d(2), of "vy (position g)" "vy (targetP p)"]
      by (simp add: pos)
    moreover have "min (vz (position g)) (vz (targetP p)) \<le> vz (position g')
        \<and> vz (position g') \<le> max (vz (position g)) (vz (targetP p))"
      using lerp_between [OF t d(2), of "vz (position g)" "vz (targetP p)"]
      by (simp add: pos)
    ultimately show ?thesis by blast
  qed
  have less: "distanceTo (position g') (targetP p) < distanceTo (position g) (targetP p)"
    if d: "0 < delta" "2 * delta < 1" and n: "position g \<noteq> targetP p"
  proof -
    have "0 < distanceTo (position g) (targetP p)" by (rule distanceTo_pos [OF n])
    moreover have "\<bar>1 - 4 * delta\<bar> < 1" using d by (simp add: abs_less_iff)
    ultimately show ?thesis unfolding dist by simp
  qed
  show "\<exists>g'. partGroupRef (partFrame p delta e dpr s) = Some g'
        \<and> position g' = lerpV (position g) (targetP p) (4 * delta)
        \<and> distanceTo (position g') (targetP p)
            = \<bar>1 - 4 * delta\<bar> * distanceTo (position g) (targetP p)
        \<and> (0 < delta \<and> 4 * delta \<le> 1 \<longrightarrow>
             4 * delta = min 1 (4 * delta)
             \<and> min (vx (position g)) (vx (targetP p)) \<le> vx (position g')
             \<and> vx (position g') \<le> max (vx (position g)) (vx (targetP p))
             \<and> min (vy (position g)) (vy (targetP p)) \<le> vy (position g')
             \<and> vy (position g') \<le> max (vy (position g)) (vy (targetP p))
             \<and> min (vz (position g)) (vz (targetP p)) \<le> vz (position g')
             \<and> vz (position g') \<le> max (vz (position g)) (vz (targetP p)))
        \<and> (0 < delta \<and> 2 * delta < 1 \<and> position g \<noteq> targetP p \<longrightarrow>
             distanceTo (position g') (targetP p) < distanceTo (position g) (targetP p))"
    using g' pos dist between less by blast
qed

theorem C2_position_smoothing_witness:
  "partGroupRef torsoAtCarPose = Some \<lparr> position = Vector3 0 0.7 0.1, quaternion = Identity \<rparr>
   \<and> (0 :: real) < 3 / 10 \<and> 2 * (3 / 10 :: real) < 1
   \<and> Vector3 0 0.7 0.1 \<noteq> targetP torsoAsRobot
   \<and> (\<exists>g'. partGroupRef (partFrame torsoAsRobot (3 / 10) 0 1 torsoAtCarPose) = Some g'
         \<and> position g' = lerpV (Vector3 0 0.7 0.1) (targetP torsoAsRobot) (4 * (3 / 10))
         \<and> distanceTo (position g') (targetP torsoAsRobot)
             < distanceTo (Vector3 0 0.7 0.1) (targetP torsoAsRobot))
   \<and> (0 :: real) < 1 / 60 \<and> 4 * (1 / 60 :: real) \<le> 1
   \<and> (\<exists>g'. partGroupRef (partFrame torsoAsRobot (1 / 60) 0 1 torsoAtCarPose) = Some g'
         \<and> vy (Vector3 0 0.7 0.1) \<le> vy (position g')
         \<and> vy (position g') \<le> vy (targetP torsoAsRobot))"
proof -
  let ?g = "\<lparr> position = Vector3 0 0.7 0.1, quaternion = Identity \<rparr>"
  have g: "partGroupRef torsoAtCarPose = Some ?g" by (simp add: torsoAtCarPose_def)
  have d: "(0 :: real) < 3 / 10" "2 * (3 / 10 :: real) < 1"
    "(0 :: real) < 1 / 60" "4 * (1 / 60 :: real) \<le> 1" by simp_all
  have tp: "targetP torsoAsRobot = Vector3 0 4 0"
    by (simp add: targetP_def torsoAsRobot_def transformerPart_def)
  have n: "position ?g \<noteq> targetP torsoAsRobot" by (simp add: tp)
  have a: "\<exists>g'. partGroupRef (partFrame torsoAsRobot (3 / 10) 0 1 torsoAtCarPose) = Some g'
         \<and> position g' = lerpV (position ?g) (targetP torsoAsRobot) (4 * (3 / 10))
         \<and> distanceTo (position g') (targetP torsoAsRobot)
             < distanceTo (position ?g) (targetP torsoAsRobot)"
    using C2_position_smoothing [of torsoAtCarPose ?g torsoAsRobot "3 / 10" 0 1] g d(1,2) n
    by blast
  have "\<exists>g'. partGroupRef (partFrame torsoAsRobot (1 / 60) 0 1 torsoAtCarPose) = Some g'
         \<and> min (vy (position ?g)) (vy (targetP torsoAsRobot)) \<le> vy (position g')
         \<and> vy (position g') \<le> max (vy (position ?g)) (vy (targetP torsoAsRobot))"
    using C2_position_smoothing [of torsoAtCarPose ?g torsoAsRobot "1 / 60" 0 1] g d(3,4)
    by blast
  then have b: "\<exists>g'. partGroupRef (partFrame torsoAsRobot (1 / 60) 0 1 torsoAtCarPose) = Some g'
         \<and> vy (Vector3 0 0.7 0.1) \<le> vy (position g')
         \<and> vy (position g') \<le> vy (targetP torsoAsRobot)"
    by (simp add: tp)
  show ?thesis using g d n a b by simp
qed

text \<open>
  The claim as written, for every dt > 0 and with the factor min(1, 4 * dt), fails on
  a long frame. One second after the last frame (dt = 1) the factor the code uses is
  4, not 1; the torso, at its car position (0, 0.7, 0.1) when robot mode begins, is
  moved past the robot position (0, 4, 0) to (0, 13.9, - 0.3), farther from the target
  than before.
\<close>

theorem C2_long_frame_counterexample:
  "partGroupRef (partFrame torsoAsRobot 1 0 1 torsoAtCarPose)
     = Some \<lparr> position = Vector3 0 13.9 (- 0.3),
              quaternion = Slerp Identity (targetQ torsoAsRobot) 4 \<rparr>
   \<and> targetP torsoAsRobot = Vector3 0 4 0
   \<and> (4 * 1 :: real) \<noteq> min 1 (4 * 1)
   \<and> \<not> distanceTo (Vector3 0 13.9 (- 0.3)) (Vector3 0 4 0)
         < distanceTo (Vector3 0 0.7 0.1) (Vector3 0 4 0)
   \<and> \<not> vy (Vector3 0 13.9 (- 0.3)) \<le> max (vy (Vector3 0 0.7 0.1)) (vy (Vector3 0 4 0))"
  by (simp add: partFrame_def torsoAsRobot_def torsoAtCarPose_def transformerPart_def targetP_def
      distanceTo_def Let_def power2_eq_square)

subsection \<open>Secondary motion\<close>

lemma applied_Spin:
  "applied p Spin \<longleftrightarrow> partType p = ''wheel'' \<and> \<not> isRobot p"
  by (auto simp: applied_def dynamicQ_def Let_def)

lemma applied_Flap:
  "applied p Flap \<longleftrightarrow> partType p \<in> {''door_left'', ''door_right''} \<and> isFlight p"
  by (auto simp: applied_def dynamicQ_def Let_def)

lemma applied_OpenAngle:
  "applied p OpenAngle \<longleftrightarrow>
     partType p \<in> {''door_left'', ''door_right''} \<and> \<not> isFlight p \<and> doorOpenProp p"
  by (auto simp: applied_def dynamicQ_def Let_def)

lemma carAssembly_flags:
  assumes "p \<in> set (carAssembly r f d w t)"
  shows "isRobot p = r \<and> isFlight p = f
         \<and> (partType p \<in> {''door_left'', ''door_right''} \<longrightarrow> doorOpenProp p = d)"
  using assms
  by (auto simp: carAssembly_def diamondDriver_def wheel_def transformerPart_def)

lemma dynamicQ_cases:
  "dynamicQ p =
     (if partType p = ''wheel'' \<and> \<not> isRobot p then Some (Spin, wheelRotation p, 0, 0)
      else if partType p = ''door_left'' \<and> isFlight p
        then Some (Flap, 0, 0, pi / 4 + sin (time p * 10) * 0.8)
      else if partType p = ''door_right'' \<and> isFlight p
        then Some (Flap, 0, 0, - pi / 4 - sin (time p * 10) * 0.8)
      else if partType p = ''door_left'' \<and> \<not> isFlight p \<and> doorOpenProp p
        then Some (OpenAngle, 0, 0, pi / 2.2)
      else if partType p = ''door_right'' \<and> \<not> isFlight p \<and> doorOpenProp p
        then Some (OpenAngle, 0, 0, - pi / 2.2)
      else None)"
  by (auto simp: dynamicQ_def Let_def)

lemma carAssembly_props:
  assumes "p \<in> set (carAssembly r f d w t)"
  shows "(partType p = ''wheel'' \<longrightarrow> wheelRotation p = w)
         \<and> (partType p \<in> {''door_left'', ''door_right''} \<longrightarrow> time p = t)"
  using assms
  by (auto simp: carAssembly_def diamondDriver_def wheel_def transformerPart_def)

text \<open>
  C3. In every state the application can reach, for every part rendered (with wheel
  rotation \<open>w\<close> and time \<open>t\<close>): the wheel spin is applied exactly to the wheels when the
  mode is not Robot; the flapping is applied exactly to the two doors when the mode
  is Flight; the open angle is applied exactly to the two doors when the mode is Car
  and the door is open. The target orientation is the base orientation multiplied by
  the rotation about x by \<open>w\<close> for a spinning wheel, about z by
  pi/4 + sin(10 t) * 0.8 (left door) or its negative (right door) for a flapping door,
  about z by pi/2.2 (left) or - pi/2.2 (right) for an open door, and by the identity
  otherwise; and every frame of a mounted part slerps its orientation toward that
  target by 4 * delta.
\<close>

theorem C3_secondary_motion:
  "\<forall>p \<in> set (renderParts (run initialApp cs) w t).
     (applied p Spin \<longleftrightarrow> partType p = ''wheel'' \<and> mode (run initialApp cs) \<noteq> Robot)
     \<and> (applied p Flap \<longleftrightarrow>
          partType p \<in> {''door_left'', ''door_right''} \<and> mode (run initialApp cs) = Flight)
     \<and> (applied p OpenAngle \<longleftrightarrow>
          partType p \<in> {''door_left'', ''door_right''}
          \<and> mode (run initialApp cs) = Car \<and> doorOpen (run initialApp cs))
     \<and> targetQ p =
          Multiply (qBase p)
            (if partType p = ''wheel'' \<and> mode (run initialApp cs) \<noteq> Robot
               then SetFromEuler w 0 0
             else if partType p = ''door_left'' \<and> mode (run initialApp cs) = Flight
               then SetFromEuler 0 0 (pi / 4 + sin (t * 10) * 0.8)
             else if partType p = ''door_right'' \<and> mode (run initialApp cs) = Flight
               then SetFromEuler 0 0 (- pi / 4 - sin (t * 10) * 0.8)
             else if partType p = ''door_left'' \<and> mode (run initialApp cs) = Car
                     \<and> doorOpen (run initialApp cs)
               then SetFromEuler 0 0 (pi / 2.2)
             else if partType p = ''door_right'' \<and> mode (run initialApp cs) = Car
                     \<and> doorOpen (run initialApp cs)
               then SetFromEuler 0 0 (- pi / 2.2)
             else Identity)
     \<and> (\<forall>st g delta e dpr. partGroupRef st = Some g \<longrightarrow>
          (\<exists>g'. partGroupRef (partFrame p delta e dpr st) = Some g'
             \<and> quaternion g' = Slerp (quaternion g) (targetQ p) (4 * delta)))"
proof
  fix p
  assume p: "p \<in> set (renderParts (run initialApp cs) w t)"
  let ?s = "run initialApp cs"
  have inv: "mode ?s = Car \<or> \<not> doorOpen ?s"
    using doorInv_run_initial [of cs] by (simp add: doorInv_def)
  have flags: "isRobot p = (mode ?s = Robot)" "isFlight p = (mode ?s = Flight)"
    "partType p \<in> {''door_left'', ''door_right''} \<longrightarrow> doorOpenProp p = doorOpen ?s"
    using carAssembly_flags [OF p [unfolded renderParts_def]] by simp_all
  have props: "partType p = ''wheel'' \<longrightarrow> wheelRotation p = w"
    "partType p \<in> {''door_left'', ''door_right''} \<longrightarrow> time p = t"
    using carAssembly_props [OF p [unfolded renderParts_def]] by simp_all
  have tags: "(applied p Spin \<longleftrightarrow> partType p = ''wheel'' \<and> mode ?s \<noteq> Robot)
     \<and> (applied p Flap \<longleftrightarrow> partType p \<in> {''door_left'', ''door_right''} \<and> mode ?s = Flight)
     \<and> (applied p OpenAngle \<longleftrightarrow>
          partType p \<in> {''door_left'', ''door_right''} \<and> mode ?s = Car \<and> doorOpen ?s)"
    unfolding applied_Spin applied_Flap applied_OpenAngle
    using flags inv by (cases "mode ?s") auto
  have tq: "targetQ p =
          Multiply (qBase p)
            (if partType p = ''wheel'' \<and> mode ?s \<noteq> Robot
               then SetFromEuler w 0 0
             else if partType p = ''door_left'' \<and> mode ?s = Flight
               then SetFromEuler 0 0 (pi / 4 + sin (t * 10) * 0.8)
             else if partType p = ''door_right'' \<and> mode ?s = Flight
               then SetFromEuler 0 0 (- pi / 4 - sin (t * 10) * 0.8)
             else if partType p = ''door_left'' \<and> mode ?s = Car \<and> doorOpen ?s
               then SetFromEuler 0 0 (pi / 2.2)
             else if partType p = ''door_right'' \<and> mode ?s = Car \<and> doorOpen ?s
               then SetFromEuler 0 0 (- pi / 2.2)
             else Identity)"
    unfolding targetQ_def dynamicQ_cases
    using flags props inv by (cases "mode ?s") auto
  have fr: "\<exists>g'. partGroupRef (partFrame p delta e dpr st) = Some g'
             \<and> quaternion g' = Slerp (quaternion g) (targetQ p) (4 * delta)"
    if "partGroupRef st = Some g" for st g delta e dpr
    by (simp add: partFrame_group [OF that])
  show "(applied p Spin \<longleftrightarrow> partType p = ''wheel'' \<and> mode ?s \<noteq> Robot)
     \<and> (applied p Flap \<longleftrightarrow> partType p \<in> {''door_left'', ''door_right''} \<and> mode ?s = Flight)
     \<and> (applied p OpenAngle \<longleftrightarrow>
          partType p \<in> {''door_left'', ''door_right''} \<and> mode ?s = Car \<and> doorOpen ?s)
     \<and> targetQ p =
          Multiply (qBase p)
            (if partType p = ''wheel'' \<and> mode ?s \<noteq> Robot
               then SetFromEuler w 0 0
             else if partType p = ''door_left'' \<and> mode ?s = Flight
               then SetFromEuler 0 0 (pi / 4 + sin (t * 10) * 0.8)
             else if partType p = ''door_right'' \<and> mode ?s = Flight
               then SetFromEuler 0 0 (- pi / 4 - sin (t * 10) * 0.8)
             else if partType p = ''door_left'' \<and> mode ?s = Car \<and> doorOpen ?s
               then SetFromEuler 0 0 (pi / 2.2)
             else if partType p = ''door_right'' \<and> mode ?s = Car \<and> doorOpen ?s
               then SetFromEuler 0 0 (- pi / 2.2)
             else Identity)
     \<and> (\<forall>st g delta e dpr. partGroupRef st = Some g \<longrightarrow>
          (\<exists>g'. partGroupRef (partFrame p delta e dpr st) = Some g'
             \<and> quaternion g' = Slerp (quaternion g) (targetQ p) (4 * delta)))"
    using tags tq fr by blast
qed

theorem C3_secondary_motion_witness:
  "leftDoorInFlight \<in> set (renderParts (run initialApp [ToggleDoor, ToggleFlight]) 0 0)
   \<and> mode (run initialApp [ToggleDoor, ToggleFlight]) = Flight
   \<and> applied leftDoorInFlight Flap
   \<and> \<not> applied leftDoorInFlight OpenAngle
   \<and> \<not> applied leftDoorInFlight Spin
   \<and> targetQ leftDoorInFlight = Multiply (SetFromEuler 0 0 0.3) (SetFromEuler 0 0 (pi / 4))
   \<and> partGroupRef leftDoorAtCarPose
        = Some \<lparr> position = Vector3 1.2 0.9 (- 0.6), quaternion = Identity \<rparr>
   \<and> (\<exists>g'. partGroupRef (partFrame leftDoorInFlight (1 / 60) 0 1 leftDoorAtCarPose) = Some g'
         \<and> quaternion g'
             = Slerp Identity (Multiply (SetFromEuler 0 0 0.3) (SetFromEuler 0 0 (pi / 4)))
                 (4 * (1 / 60)))"
proof -
  let ?cs = "[ToggleDoor, ToggleFlight]"
  let ?g = "\<lparr> position = Vector3 1.2 0.9 (- 0.6), quaternion = Identity \<rparr>"
  have s: "run initialApp ?cs = \<lparr> mode = Flight, doorOpen = False \<rparr>"
    by (simp add: run_def initialApp_def toggleDoor_def toggleFlight_def)
  have m: "leftDoorInFlight \<in> set (renderParts (run initialApp ?cs) 0 0)"
    unfolding s by (simp add: renderParts_def carAssembly_def leftDoorInFlight_def)
  have t: "partType leftDoorInFlight = ''door_left''"
    by (simp add: leftDoorInFlight_def transformerPart_def)
  have q: "qBase leftDoorInFlight = SetFromEuler 0 0 0.3"
    by (simp add: qBase_def leftDoorInFlight_def transformerPart_def)
  have g: "partGroupRef leftDoorAtCarPose = Some ?g" by (simp add: leftDoorAtCarPose_def)
  note inst = C3_secondary_motion [of ?cs 0 0, THEN bspec, OF m]
  have tags: "applied leftDoorInFlight Flap" "\<not> applied leftDoorInFlight OpenAngle"
    "\<not> applied leftDoorInFlight Spin"
    using inst t by (simp_all add: s)
  have tq: "targetQ leftDoorInFlight = Multiply (SetFromEuler 0 0 0.3) (SetFromEuler 0 0 (pi / 4))"
    using inst t by (simp add: s q)
  have "\<exists>g'. partGroupRef (partFrame leftDoorInFlight (1 / 60) 0 1 leftDoorAtCarPose) = Some g'
         \<and> quaternion g' = Slerp (quaternion ?g) (targetQ leftDoorInFlight) (4 * (1 / 60))"
    using inst g by blast
  then have fr: "\<exists>g'. partGroupRef (partFrame leftDoorInFlight (1 / 60) 0 1 leftDoorAtCarPose) = Some g'
         \<and> quaternion g'
             = Slerp Identity (Multiply (SetFromEuler 0 0 0.3) (SetFromEuler 0 0 (pi / 4)))
                 (4 * (1 / 60))"
    by (simp add: tq)
  show ?thesis using m s tags tq g fr by simp
qed

subsection \<open>Pose selection\<close>

text \<open>
  C9. In Flight mode a part given no flight position is sent to its car position, and
  a part given no flight rotation to its car rotation (the same targets as in Car
  mode); a flight position or rotation that is given is the one used.
\<close>

theorem C9_flight_fallback:
  "isFlight p \<and> \<not> isRobot p \<longrightarrow>
     (flightPos p = None \<longrightarrow>
        targetP p = fromArray (carPos p)
        \<and> targetP p = targetP (p\<lparr> isRobot := False, isFlight := False \<rparr>))
     \<and> (flightRot p = None \<longrightarrow>
        qBase p = setFromEuler (carRot p)
        \<and> qBase p = qBase (p\<lparr> isRobot := False, isFlight := False \<rparr>))
     \<and> (\<forall>f. flightPos p = Some f \<longrightarrow> targetP p = fromArray f)
     \<and> (\<forall>f. flightRot p = Some f \<longrightarrow> qBase p = setFromEuler f)"
  by (simp add: targetP_def qBase_def)

theorem C9_flight_fallback_witness:
  "isFlight bareInFlight \<and> \<not> isRobot bareInFlight
   \<and> flightPos bareInFlight = None \<and> flightRot bareInFlight = None
   \<and> targetP bareInFlight = Vector3 0 1 2
   \<and> qBase bareInFlight = SetFromEuler 0.5 0 0
   \<and> isFlight leftDoorInFlight \<and> \<not> isRobot leftDoorInFlight
   \<and> flightPos leftDoorInFlight = Some (1.2, 1.0, - 0.6)
   \<and> flightRot leftDoorInFlight = Some (0, 0, 0.3)
   \<and> targetP leftDoorInFlight = Vector3 1.2 1.0 (- 0.6)
   \<and> qBase leftDoorInFlight = SetFromEuler 0 0 0.3"
proof -
  have b: "isFlight bareInFlight" "\<not> isRobot bareInFlight"
    "flightPos bareInFlight = None" "flightRot bareInFlight = None"
    "carPos bareInFlight = (0, 1, 2)" "carRot bareInFlight = (0.5, 0, 0)"
    by (simp_all add: bareInFlight_def transformerPart_def)
  have l: "isFlight leftDoorInFlight" "\<not> isRobot leftDoorInFlight"
    "flightPos leftDoorInFlight = Some (1.2, 1.0, - 0.6)"
    "flightRot leftDoorInFlight = Some (0, 0, 0.3)"
    by (simp_all add: leftDoorInFlight_def transformerPart_def)
  have "targetP bareInFlight = fromArray (carPos bareInFlight)"
    "qBase bareInFlight = setFromEuler (carRot bareInFlight)"
    using C9_flight_fallback [of bareInFlight] b(1-4) by blast+
  moreover have "targetP leftDoorInFlight = fromArray (1.2, 1.0, - 0.6)"
    "qBase leftDoorInFlight = setFromEuler (0, 0, 0.3)"
    using C9_flight_fallback [of leftDoorInFlight] l by blast+
  ultimately show ?thesis using b l by simp
qed

end
